theory Spec2Isabelle
  imports
    Complex_Main
    "HOL-Library.Multiset"
    "HOL-Library.Char_ord"
    "HOL-Library.List_Lexorder"
    "HOL-Library.Product_Lexorder"
begin

section \<open>The influencer campaign dashboard (\<^verbatim>\<open>src/dashboard.py\<close>)\<close>

text \<open>
  The script loads four CSV tables, joins them into \<^verbatim>\<open>campaign_data\<close>, applies the
  sidebar filters, and renders KPI cards, charts, two leaderboards, a post table and an
  on-demand report. A data frame is modelled as the list of its rows, a column that can
  hold a missing value (pandas \<^verbatim>\<open>NaN\<close>) as an \<open>option\<close>.

  Numbers: the script computes with 64-bit floats. The model keeps the exact rational
  value of every finite number (rounding and overflow are not modelled) and adds the
  three special values a float division can produce, since the script divides by
  totals that can be zero.
\<close>

subsection \<open>Numbers\<close>

datatype fl = Fin rat | PInf | NInf | NaN

text \<open>numpy's element-wise \<^verbatim>\<open>a / b\<close> on finite floats: \<^verbatim>\<open>x / 0\<close> is \<^verbatim>\<open>inf\<close>, \<^verbatim>\<open>-inf\<close> or
  \<^verbatim>\<open>nan\<close> by the sign of \<^verbatim>\<open>x\<close>; no exception is raised.\<close>

definition fdiv :: "rat \<Rightarrow> rat \<Rightarrow> fl" where
  "fdiv a b =
     (if b \<noteq> 0 then Fin (a / b)
      else if 0 < a then PInf
      else if a < 0 then NInf
      else NaN)"

fun is_finite :: "fl \<Rightarrow> bool" where
  "is_finite (Fin x) = True"
| "is_finite PInf = False"
| "is_finite NInf = False"
| "is_finite NaN = False"

text \<open>\<^verbatim>\<open>df.replace([np.inf, -np.inf], np.nan)\<close> followed by \<^verbatim>\<open>df.fillna(0)\<close>, on one cell.\<close>

fun replace_inf :: "fl \<Rightarrow> fl" where
  "replace_inf PInf = NaN"
| "replace_inf NInf = NaN"
| "replace_inf x = x"

fun fillna0 :: "fl \<Rightarrow> fl" where
  "fillna0 NaN = Fin 0"
| "fillna0 x = x"

subsection \<open>The four input tables\<close>

text \<open>Dates are day numbers. \<^verbatim>\<open>influencer_id\<close> of a tracking row is empty for organic
  traffic; its \<^verbatim>\<open>revenue\<close> cell may be empty (the script fills it).\<close>

record influencer =
  inf_ID :: nat
  inf_name :: string
  inf_category :: string
  inf_platform :: string

record post =
  post_influencer_id :: nat
  post_platform :: string
  post_date :: int
  reach :: nat
  likes :: nat
  comments :: nat

record tracking =
  influencer_id :: "nat option"
  date :: int
  source :: string
  revenue :: "rat option"

record payout =
  pay_influencer_id :: nat
  pay_total_payout :: rat

subsection \<open>Join and pre-processing (lines 28--36)\<close>

text \<open>The columns of \<^verbatim>\<open>campaign_data\<close>: those of the tracking table, then those a left
  join brings from the influencer table and from the payout table. A left join leaves
  them empty in a row that found no partner.\<close>

record joined = tracking +
  ID :: "nat option"
  name :: "string option"
  category :: "string option"
  platform :: "string option"

record row = joined +
  total_payout :: "rat option"

text \<open>\<^verbatim>\<open>pd.merge(tracking_df, influencers_df, left_on='influencer_id', right_on='ID',
  how='left')\<close>: the left rows in their order, each once per partner (in the right
  table's order), or once with empty right-hand columns.\<close>

definition join_influencer :: "tracking \<Rightarrow> influencer \<Rightarrow> joined" where
  "join_influencer t i =
     \<lparr>influencer_id = influencer_id t, date = date t, source = source t,
      revenue = revenue t,
      ID = Some (inf_ID i), name = Some (inf_name i),
      category = Some (inf_category i), platform = Some (inf_platform i)\<rparr>"

definition no_influencer :: "tracking \<Rightarrow> joined" where
  "no_influencer t =
     \<lparr>influencer_id = influencer_id t, date = date t, source = source t,
      revenue = revenue t,
      ID = None, name = None, category = None, platform = None\<rparr>"

definition matching_influencers :: "tracking \<Rightarrow> influencer list \<Rightarrow> influencer list" where
  "matching_influencers t influencers_df =
     filter (\<lambda>i. influencer_id t = Some (inf_ID i)) influencers_df"

definition merge_influencers :: "tracking list \<Rightarrow> influencer list \<Rightarrow> joined list" where
  "merge_influencers tracking_df influencers_df =
     concat (map (\<lambda>t. case matching_influencers t influencers_df of
                         [] \<Rightarrow> [no_influencer t]
                       | ms \<Rightarrow> map (join_influencer t) ms) tracking_df)"

text \<open>\<^verbatim>\<open>pd.merge(campaign_data, payouts_df, on='influencer_id', how='left')\<close>: the key is
  the tracking row's own \<^verbatim>\<open>influencer_id\<close>, whether or not the first join found an
  influencer for it.\<close>

definition with_payout :: "joined \<Rightarrow> rat option \<Rightarrow> row" where
  "with_payout j p =
     \<lparr>influencer_id = influencer_id j, date = date j, source = source j,
      revenue = revenue j,
      ID = ID j, name = name j, category = category j, platform = platform j,
      total_payout = p\<rparr>"

definition matching_payouts :: "joined \<Rightarrow> payout list \<Rightarrow> payout list" where
  "matching_payouts j payouts_df =
     filter (\<lambda>p. influencer_id j = Some (pay_influencer_id p)) payouts_df"

definition merge_payouts :: "joined list \<Rightarrow> payout list \<Rightarrow> row list" where
  "merge_payouts df payouts_df =
     concat (map (\<lambda>j. case matching_payouts j payouts_df of
                         [] \<Rightarrow> [with_payout j None]
                       | ms \<Rightarrow> map (\<lambda>p. with_payout j (Some (pay_total_payout p))) ms) df)"

text \<open>The four \<^verbatim>\<open>fillna(..., inplace=True)\<close> calls, on one row, in the script's order.
  The fill on the selected column writes through to \<^verbatim>\<open>campaign_data\<close>, as in the
  pandas versions without copy-on-write that the script was written for.\<close>

definition fill_default :: "'a \<Rightarrow> 'a option \<Rightarrow> 'a option" where
  "fill_default d v = (case v of None \<Rightarrow> Some d | Some x \<Rightarrow> Some x)"

definition fillna_row :: "row \<Rightarrow> row" where
  "fillna_row r0 =
     (let r1 = r0\<lparr>category := fill_default ''Organic'' (category r0)\<rparr>;
          r2 = r1\<lparr>platform := fill_default ''Organic'' (platform r1)\<rparr>;
          r3 = r2\<lparr>total_payout := fill_default 0 (total_payout r2)\<rparr>;
          r4 = r3\<lparr>revenue := fill_default 0 (revenue r3)\<rparr>
      in r4)"

definition campaign_data :: "tracking list \<Rightarrow> influencer list \<Rightarrow> payout list \<Rightarrow> row list" where
  "campaign_data tracking_df influencers_df payouts_df =
     map fillna_row (merge_payouts (merge_influencers tracking_df influencers_df) payouts_df)"

text \<open>The unified records that one tracking row gives rise to.\<close>

definition unified :: "tracking \<Rightarrow> influencer list \<Rightarrow> payout list \<Rightarrow> row list" where
  "unified t influencers_df payouts_df = campaign_data [t] influencers_df payouts_df"

subsection \<open>Sidebar filters (lines 39--71)\<close>

text \<open>What the user has selected in the sidebar, and whether the report button was
  pressed. \<^verbatim>\<open>st.date_input\<close> with a range default returns a tuple of the dates picked
  so far: none, one, or two.\<close>

record ui =
  date_range :: "int list"
  selected_categories :: "string list"
  selected_platforms :: "string list"
  report_clicked :: bool

datatype error = ValueError

text \<open>\<^verbatim>\<open>Series.isin(values)\<close>: an empty cell is in no list of strings.\<close>

definition isin :: "string option \<Rightarrow> string list \<Rightarrow> bool" where
  "isin v values = (case v of None \<Rightarrow> False | Some s \<Rightarrow> s \<in> set values)"

definition filter_categories :: "string list \<Rightarrow> row list \<Rightarrow> row list" where
  "filter_categories sel df =
     (if ''All'' \<notin> set sel then filter (\<lambda>r. isin (category r) sel) df else df)"

definition filter_platforms :: "string list \<Rightarrow> row list \<Rightarrow> row list" where
  "filter_platforms sel df =
     (if ''All'' \<notin> set sel then filter (\<lambda>r. isin (platform r) sel) df else df)"

text \<open>Lines 69--71: an empty tuple is falsy and skips the step; the tuple assignment
  \<^verbatim>\<open>start_date, end_date = date_range\<close> raises \<^verbatim>\<open>ValueError\<close> unless there are exactly
  two dates.\<close>

fun filter_dates :: "int list \<Rightarrow> row list \<Rightarrow> error + row list" where
  "filter_dates [] df = Inr df"
| "filter_dates [start_date, end_date] df =
     Inr (filter (\<lambda>r. start_date \<le> date r \<and> date r \<le> end_date) df)"
| "filter_dates _ df = Inl ValueError"

definition filter_rows :: "ui \<Rightarrow> row list \<Rightarrow> error + row list" where
  "filter_rows f df =
     filter_dates (date_range f)
       (filter_platforms (selected_platforms f)
         (filter_categories (selected_categories f) df))"

text \<open>The two frames the script holds at this point. Line 64 copies
  \<^verbatim>\<open>campaign_data\<close>; every later step rebinds \<^verbatim>\<open>filtered_df\<close> to a new frame.\<close>

record frames =
  v_campaign_data :: "row list"
  v_filtered_df :: "row list"

definition apply_filters :: "ui \<Rightarrow> frames \<Rightarrow> error + frames" where
  "apply_filters f s =
     (let s0 = s\<lparr>v_filtered_df := v_campaign_data s\<rparr>;
          s1 = s0\<lparr>v_filtered_df := filter_categories (selected_categories f) (v_filtered_df s0)\<rparr>;
          s2 = s1\<lparr>v_filtered_df := filter_platforms (selected_platforms f) (v_filtered_df s1)\<rparr>
      in case filter_dates (date_range f) (v_filtered_df s2) of
           Inl e \<Rightarrow> Inl e
         | Inr df \<Rightarrow> Inr (s2\<lparr>v_filtered_df := df\<rparr>))"

text \<open>\<open>filter (filter R f) f\<close>: the filter applied to its own result.\<close>

definition filter_twice :: "ui \<Rightarrow> row list \<Rightarrow> error + row list" where
  "filter_twice f df =
     (case filter_rows f df of Inl e \<Rightarrow> Inl e | Inr df' \<Rightarrow> filter_rows f df')"

subsection \<open>Key performance indicators (lines 75--92)\<close>

text \<open>\<^verbatim>\<open>Series.sum()\<close> skips empty cells. The script's variables \<^verbatim>\<open>total_revenue\<close>
  and \<^verbatim>\<open>total_payout\<close> are \<open>kpi_total_revenue\<close> and \<open>kpi_total_payout\<close> here:
  \<open>total_payout\<close> is already the column of that name.\<close>

definition col_sum :: "('r \<Rightarrow> rat option) \<Rightarrow> 'r list \<Rightarrow> rat" where
  "col_sum col df = sum_list (map (\<lambda>r. case col r of None \<Rightarrow> 0 | Some x \<Rightarrow> x) df)"

definition kpi_total_revenue :: "row list \<Rightarrow> rat" where
  "kpi_total_revenue filtered_df = col_sum revenue filtered_df"

definition kpi_total_payout :: "row list \<Rightarrow> rat" where
  "kpi_total_payout filtered_df = col_sum total_payout filtered_df"

definition organic_revenue_baseline :: "tracking list \<Rightarrow> rat" where
  "organic_revenue_baseline tracking_df =
     col_sum revenue (filter (\<lambda>t. source t = ''organic'') tracking_df)"

definition influencer_revenue :: "row list \<Rightarrow> rat" where
  "influencer_revenue filtered_df =
     col_sum revenue (filter (\<lambda>r. source r = ''influencer'') filtered_df)"

definition roi :: "row list \<Rightarrow> fl" where
  "roi filtered_df =
     (if kpi_total_payout filtered_df > 0
      then fdiv (kpi_total_revenue filtered_df - kpi_total_payout filtered_df)
                (kpi_total_payout filtered_df)
      else Fin 0)"

definition incremental_roas :: "tracking list \<Rightarrow> row list \<Rightarrow> fl" where
  "incremental_roas tracking_df filtered_df =
     (if kpi_total_payout filtered_df > 0
      then fdiv (influencer_revenue filtered_df - organic_revenue_baseline tracking_df)
                (kpi_total_payout filtered_df)
      else Fin 0)"

text \<open>A number as a format specification shows it: \<^verbatim>\<open>{:,.2f}\<close> after the rupee sign,
  \<^verbatim>\<open>{:.2%}\<close>, \<^verbatim>\<open>{:.2f}\<close>. Two shown numbers print the same text when they are equal.\<close>

datatype shown = Currency rat | Percent fl | Fixed2 fl

text \<open>The four \<^verbatim>\<open>st.metric\<close> cards, by label (the emoji of the label left out).\<close>

definition kpi_cards :: "tracking list \<Rightarrow> row list \<Rightarrow> (string \<times> shown) list" where
  "kpi_cards tracking_df filtered_df =
     [(''Total Revenue'', Currency (kpi_total_revenue filtered_df)),
      (''Total Payouts'', Currency (kpi_total_payout filtered_df)),
      (''ROI'', Percent (roi filtered_df)),
      (''Incremental ROAS'', Fixed2 (incremental_roas tracking_df filtered_df))]"

subsection \<open>Group-by aggregation\<close>

text \<open>\<^verbatim>\<open>df.groupby(key).agg(total_revenue=('revenue','sum'),
  total_payout=('total_payout','sum')).reset_index()\<close>: one row per distinct key value,
  in ascending key order; rows whose key cell is empty belong to no group.\<close>

definition group_keys :: "(row \<Rightarrow> 'k::linorder option) \<Rightarrow> row list \<Rightarrow> 'k list" where
  "group_keys key df = sort (remdups (List.map_filter key df))"

definition groupby_agg :: "(row \<Rightarrow> 'k::linorder option) \<Rightarrow> row list \<Rightarrow> ('k \<times> rat \<times> rat) list" where
  "groupby_agg key df =
     map (\<lambda>k. (k, col_sum revenue (filter (\<lambda>r. key r = Some k) df),
                   col_sum total_payout (filter (\<lambda>r. key r = Some k) df)))
         (group_keys key df)"

record 'k agg =
  agg_key :: 'k
  agg_total_revenue :: rat
  agg_total_payout :: rat
  ROI :: fl

text \<open>\<^verbatim>\<open>df['ROI'] = (df['total_revenue'] - df['total_payout']) / df['total_payout']\<close>:
  the element-wise division, with no guard.\<close>

fun with_ROI :: "('k \<times> rat \<times> rat) \<Rightarrow> 'k agg" where
  "with_ROI (k, tr, tp) =
     \<lparr>agg_key = k, agg_total_revenue = tr, agg_total_payout = tp, ROI = fdiv (tr - tp) tp\<rparr>"

text \<open>\<^verbatim>\<open>df.replace([np.inf, -np.inf], np.nan, inplace=True); df.fillna(0, inplace=True)\<close>;
  the two totals are finite sums and stay as they are.\<close>

definition clean :: "'k agg \<Rightarrow> 'k agg" where
  "clean p = p\<lparr>ROI := fillna0 (replace_inf (ROI p))\<rparr>"

text \<open>Line 100: daily totals. Line 118: revenue by platform. Lines 131--135: the
  category chart's frame, whose ROI column is charted as computed.\<close>

definition time_series_data :: "row list \<Rightarrow> (int \<times> rat \<times> rat) list" where
  "time_series_data filtered_df = groupby_agg (\<lambda>r. Some (date r)) filtered_df"

definition platform_revenue :: "row list \<Rightarrow> (string \<times> rat) list" where
  "platform_revenue filtered_df =
     map (\<lambda>(k, tr, tp). (k, tr)) (groupby_agg platform filtered_df)"

definition category_revenue :: "row list \<Rightarrow> string agg list" where
  "category_revenue filtered_df = map with_ROI (groupby_agg category filtered_df)"

subsection \<open>Sorting by ROI, head and tail\<close>

text \<open>\<^verbatim>\<open>df.sort_values(by='ROI', ascending=...)\<close>. pandas sorts the non-empty cells with
  numpy's \<^verbatim>\<open>argsort\<close> (for a descending sort: on the reversed column, and the result
  reversed again) and puts the rows with an empty cell last. \<open>roi_key\<close> is the order of
  floats that are not \<^verbatim>\<open>nan\<close>. The script leaves \<^verbatim>\<open>kind\<close> at its default, for which
  pandas promises no order among rows of equal ROI; the model runs insertion sort
  there, and no statement below depends on the order of such rows.\<close>

fun roi_key :: "fl \<Rightarrow> nat \<times> rat" where
  "roi_key NInf = (0, 0)"
| "roi_key (Fin x) = (1, x)"
| "roi_key PInf = (2, 0)"
| "roi_key NaN = (3, 0)"

definition sort_values :: "('a \<Rightarrow> fl) \<Rightarrow> bool \<Rightarrow> 'a list \<Rightarrow> 'a list" where
  "sort_values col ascending df =
     (let non_nans = filter (\<lambda>r. col r \<noteq> NaN) df;
          nans = filter (\<lambda>r. col r = NaN) df
      in (if ascending then sort_key (\<lambda>r. roi_key (col r)) non_nans
          else rev (sort_key (\<lambda>r. roi_key (col r)) (rev non_nans))) @ nans)"

definition head :: "nat \<Rightarrow> 'a list \<Rightarrow> 'a list" where
  "head n df = take n df"

definition tail :: "nat \<Rightarrow> 'a list \<Rightarrow> 'a list" where
  "tail n df = drop (length df - n) df"

text \<open>A frame is in ascending (descending) order of a float column.\<close>

definition ascending_by :: "('a \<Rightarrow> fl) \<Rightarrow> 'a list \<Rightarrow> bool" where
  "ascending_by col df = sorted (map (\<lambda>r. roi_key (col r)) df)"

definition descending_by :: "('a \<Rightarrow> fl) \<Rightarrow> 'a list \<Rightarrow> bool" where
  "descending_by col df = sorted (rev (map (\<lambda>r. roi_key (col r)) df))"

subsection \<open>Influencer leaderboard (lines 148--178)\<close>

text \<open>The script rebinds \<^verbatim>\<open>influencer_performance\<close> three times; its successive
  values are \<open>influencer_groups\<close> (lines 148--154, and 242--248 in the report: grouped
  on the joined \<^verbatim>\<open>ID\<close> column), \<open>influencer_merged\<close> (line 157, 249 in the report) and
  \<open>influencer_performance\<close> (line 158, the ranking). \<open>top_table\<close> and \<open>poor_table\<close>
  are the frames of the two leaderboard tables (lines 165 and 174).\<close>

definition influencer_groups :: "row list \<Rightarrow> nat agg list" where
  "influencer_groups filtered_df = map clean (map with_ROI (groupby_agg ID filtered_df))"

text \<open>\<^verbatim>\<open>pd.merge(influencer_performance, influencers_df[['ID','name','category',
  'platform']], on='ID')\<close>: an inner join, in the order of the left rows.\<close>

definition merge_details :: "nat agg list \<Rightarrow> influencer list \<Rightarrow> (nat agg \<times> influencer) list" where
  "merge_details perf influencers_df =
     concat (map (\<lambda>p. map (\<lambda>i. (p, i)) (filter (\<lambda>i. inf_ID i = agg_key p) influencers_df)) perf)"

definition influencer_merged :: "row list \<Rightarrow> influencer list \<Rightarrow> (nat agg \<times> influencer) list" where
  "influencer_merged filtered_df influencers_df =
     merge_details (influencer_groups filtered_df) influencers_df"

definition influencer_performance :: "row list \<Rightarrow> influencer list \<Rightarrow> (nat agg \<times> influencer) list" where
  "influencer_performance filtered_df influencers_df =
     sort_values (\<lambda>r. ROI (fst r)) False (influencer_merged filtered_df influencers_df)"

definition top_table :: "row list \<Rightarrow> influencer list \<Rightarrow> (nat agg \<times> influencer) list" where
  "top_table filtered_df influencers_df =
     head 10 (influencer_performance filtered_df influencers_df)"

definition poor_table :: "row list \<Rightarrow> influencer list \<Rightarrow> (nat agg \<times> influencer) list" where
  "poor_table filtered_df influencers_df =
     tail 10 (influencer_performance filtered_df influencers_df)"

subsection \<open>Post table (line 183)\<close>

definition post_performance :: "post list \<Rightarrow> influencer list \<Rightarrow> (string option \<times> post) list" where
  "post_performance posts_df influencers_df =
     concat (map (\<lambda>p. case filter (\<lambda>i. inf_ID i = post_influencer_id p) influencers_df of
                         [] \<Rightarrow> [(None, p)]
                       | ms \<Rightarrow> map (\<lambda>i. (Some (inf_name i), p)) ms) posts_df)"

subsection \<open>The generated report (lines 195--263)\<close>

text \<open>The report is a fixed text template; the model keeps the values the template is
  filled with, in the order they are written.\<close>

definition total_revenue_val :: "row list \<Rightarrow> rat" where
  "total_revenue_val filtered_df = col_sum revenue filtered_df"

definition total_payout_val :: "row list \<Rightarrow> rat" where
  "total_payout_val filtered_df = col_sum total_payout filtered_df"

definition roi_val :: "row list \<Rightarrow> fl" where
  "roi_val filtered_df =
     (if total_payout_val filtered_df > 0
      then fdiv (total_revenue_val filtered_df - total_payout_val filtered_df)
                (total_payout_val filtered_df)
      else Fin 0)"

text \<open>Line 203: the organic revenue subtracted here is summed over the frame the
  function was given.\<close>

definition report_organic_revenue :: "row list \<Rightarrow> rat" where
  "report_organic_revenue filtered_df =
     col_sum revenue (filter (\<lambda>r. source r = ''organic'') filtered_df)"

definition incremental_roas_val :: "row list \<Rightarrow> fl" where
  "incremental_roas_val filtered_df =
     (if total_payout_val filtered_df > 0
      then fdiv (col_sum revenue (filter (\<lambda>r. source r = ''influencer'') filtered_df)
                 - report_organic_revenue filtered_df)
                (total_payout_val filtered_df)
      else Fin 0)"

definition category_performance :: "row list \<Rightarrow> string agg list" where
  "category_performance filtered_df =
     map clean (map with_ROI (groupby_agg category filtered_df))"

definition top_categories :: "row list \<Rightarrow> string agg list" where
  "top_categories filtered_df =
     head 3 (sort_values ROI False (category_performance filtered_df))"

definition platform_performance :: "row list \<Rightarrow> string agg list" where
  "platform_performance filtered_df =
     map clean (map with_ROI (groupby_agg platform filtered_df))"

definition top_platforms :: "row list \<Rightarrow> string agg list" where
  "top_platforms filtered_df =
     head 3 (sort_values ROI False (platform_performance filtered_df))"

definition top_influencers :: "row list \<Rightarrow> influencer list \<Rightarrow> (nat agg \<times> influencer) list" where
  "top_influencers filtered_df influencers_df =
     head 3 (sort_values (\<lambda>r. ROI (fst r)) False (influencer_merged filtered_df influencers_df))"

definition poor_influencers :: "row list \<Rightarrow> influencer list \<Rightarrow> (nat agg \<times> influencer) list" where
  "poor_influencers filtered_df influencers_df =
     head 3 (sort_values (\<lambda>r. ROI (fst r)) True (influencer_merged filtered_df influencers_df))"

record report =
  summary :: "(string \<times> shown) list"
  category_lines :: "string agg list"
  platform_lines :: "string agg list"
  top_lines :: "(nat agg \<times> influencer) list"
  poor_lines :: "(nat agg \<times> influencer) list"

definition generate_detailed_report :: "row list \<Rightarrow> influencer list \<Rightarrow> report" where
  "generate_detailed_report filtered_df influencers_df =
     \<lparr>summary =
        [(''Total Revenue'', Currency (total_revenue_val filtered_df)),
         (''Total Payouts'', Currency (total_payout_val filtered_df)),
         (''ROI'', Percent (roi_val filtered_df)),
         (''Incremental ROAS'', Fixed2 (incremental_roas_val filtered_df))],
      category_lines = filter (\<lambda>p. agg_key p \<noteq> ''Organic'') (top_categories filtered_df),
      platform_lines = filter (\<lambda>p. agg_key p \<noteq> ''Organic'') (top_platforms filtered_df),
      top_lines = top_influencers filtered_df influencers_df,
      poor_lines = poor_influencers filtered_df influencers_df\<rparr>"

subsection \<open>The whole page\<close>

text \<open>What one run of the script puts on the page, in order. Layout, colours and the
  emoji of the labels are left out; a chart or table carries the frame it draws.\<close>

datatype element =
    Title string
  | Markdown string
  | Rule
  | Error_box string
  | Uncaught error
  | Sidebar_header string
  | Date_input string
  | Multiselect string "string list"
  | Header string
  | Subheader string
  | Metric string shown
  | Line_chart "(int \<times> rat \<times> rat) list"
  | Bar_chart_revenue "(string \<times> rat) list"
  | Bar_chart_ROI "string agg list"
  | Dataframe "(nat agg \<times> influencer) list"
  | Post_table "(string option \<times> post) list"
  | Button string
  | Report_text report
  | Download_button report

text \<open>The files on disk: \<open>None\<close> is a file that does not exist
  (\<^verbatim>\<open>FileNotFoundError\<close>).\<close>

record files =
  influencers_csv :: "influencer list option"
  posts_csv :: "post list option"
  tracking_csv :: "tracking list option"
  payouts_csv :: "payout list option"

record tables =
  influencers_df :: "influencer list"
  posts_df :: "post list"
  tracking_df :: "tracking list"
  payouts_df :: "payout list"

definition not_found :: string where
  "not_found = ''CSV files not found. Please run the data generation script first.''"

text \<open>Lines 18--25: the four reads in order; the first missing file ends the
  \<^verbatim>\<open>try\<close> block.\<close>

definition load :: "files \<Rightarrow> string + tables" where
  "load fs =
     (case influencers_csv fs of None \<Rightarrow> Inl not_found | Some i \<Rightarrow>
       (case posts_csv fs of None \<Rightarrow> Inl not_found | Some p \<Rightarrow>
         (case tracking_csv fs of None \<Rightarrow> Inl not_found | Some t \<Rightarrow>
           (case payouts_csv fs of None \<Rightarrow> Inl not_found | Some y \<Rightarrow>
              Inr \<lparr>influencers_df = i, posts_df = p, tracking_df = t, payouts_df = y\<rparr>))))"

definition page_header :: "element list" where
  "page_header =
     [Title ''Influencer Campaign Analytics'',
      Markdown ''A deep-dive into campaign performance, influencer insights, and key metrics for HealthKart.'',
      Rule]"

text \<open>\<^verbatim>\<open>Series.unique()\<close>: the distinct values in order of first appearance.\<close>

definition unique :: "'a list \<Rightarrow> 'a list" where
  "unique xs = rev (remdups (rev xs))"

definition sidebar :: "tables \<Rightarrow> element list" where
  "sidebar t =
     [Sidebar_header ''Filter Campaigns'',
      Date_input ''Select Date Range:'',
      Multiselect ''Select Influencer Categories:''
        (''All'' # unique (map inf_category (influencers_df t))),
      Multiselect ''Select Platforms:''
        (''All'' # unique (map inf_platform (influencers_df t)))]"

definition body :: "tables \<Rightarrow> ui \<Rightarrow> row list \<Rightarrow> element list" where
  "body t u filtered_df =
     [Header ''Campaign Overview'']
     @ map (\<lambda>(label, v). Metric label v) (kpi_cards (tracking_df t) filtered_df)
     @ [Rule,
        Header ''Detailed Performance'',
        Subheader ''Revenue & Payouts Over Time'',
        Line_chart (time_series_data filtered_df),
        Subheader ''Revenue by Platform'',
        Bar_chart_revenue (platform_revenue filtered_df),
        Subheader ''Performance by Category'',
        Bar_chart_ROI (category_revenue filtered_df),
        Subheader ''Influencer Leaderboard'',
        Markdown ''#### Top 10 Influencers by ROI'',
        Dataframe (top_table filtered_df (influencers_df t)),
        Markdown ''#### Poor Performing Influencers'',
        Dataframe (poor_table filtered_df (influencers_df t)),
        Rule,
        Header ''Post-Level Performance'',
        Post_table (post_performance (posts_df t) (influencers_df t)),
        Header ''Generate Detailed Insight Report'',
        Button ''Generate Detailed Report'']
     @ (if report_clicked u
        then [Report_text (generate_detailed_report filtered_df (influencers_df t)),
              Download_button (generate_detailed_report filtered_df (influencers_df t))]
        else [])"

text \<open>After a successful load: join, sidebar, filters, then the page body. The
  \<^verbatim>\<open>ValueError\<close> of line 70 is not caught; the run ends there.\<close>

definition render :: "tables \<Rightarrow> ui \<Rightarrow> element list" where
  "render t u =
     sidebar t
     @ (case filter_rows u (campaign_data (tracking_df t) (influencers_df t) (payouts_df t)) of
          Inl e \<Rightarrow> [Uncaught e]
        | Inr filtered_df \<Rightarrow> body t u filtered_df)"

text \<open>Lines 23--25: \<^verbatim>\<open>st.error(...)\<close>, then \<^verbatim>\<open>st.stop()\<close> ends the run.\<close>

definition dashboard :: "files \<Rightarrow> ui \<Rightarrow> element list" where
  "dashboard fs u =
     page_header
     @ (case load fs of
          Inl msg \<Rightarrow> [Error_box msg]
        | Inr t \<Rightarrow> render t u)"

text \<open>The elements that show data or let the user act on it: everything but the
  static title, description, rule and the error box.\<close>

fun dashboard_element :: "element \<Rightarrow> bool" where
  "dashboard_element (Title _) = False"
| "dashboard_element (Markdown _) = False"
| "dashboard_element Rule = False"
| "dashboard_element (Error_box _) = False"
| "dashboard_element _ = True"

subsection \<open>Example data\<close>

text \<open>The end-to-end scenario of the specification: one influencer row, one organic
  row, one payout.\<close>

definition ex_tracking :: "tracking list" where
  "ex_tracking =
     [\<lparr>influencer_id = Some 1, date = 1, source = ''influencer'', revenue = Some 100\<rparr>,
      \<lparr>influencer_id = None, date = 2, source = ''organic'', revenue = Some 50\<rparr>]"

definition ex_organic_tracking :: tracking where
  "ex_organic_tracking =
     \<lparr>influencer_id = None, date = 2, source = ''organic'', revenue = Some 50\<rparr>"

definition ex_influencers :: "influencer list" where
  "ex_influencers =
     [\<lparr>inf_ID = 1, inf_name = ''X'', inf_category = ''Beauty'', inf_platform = ''Instagram''\<rparr>]"

definition ex_payouts :: "payout list" where
  "ex_payouts = [\<lparr>pay_influencer_id = 1, pay_total_payout = 40\<rparr>]"

definition ex_campaign :: "row list" where
  "ex_campaign = campaign_data ex_tracking ex_influencers ex_payouts"

text \<open>The influencer row and the organic row of \<open>ex_campaign\<close>.\<close>

definition ex_row_influencer :: row where
  "ex_row_influencer =
     \<lparr>influencer_id = Some 1, date = 1, source = ''influencer'', revenue = Some 100,
      ID = Some 1, name = Some ''X'', category = Some ''Beauty'',
      platform = Some ''Instagram'', total_payout = Some 40\<rparr>"

definition ex_row_organic :: row where
  "ex_row_organic =
     \<lparr>influencer_id = None, date = 2, source = ''organic'', revenue = Some 50,
      ID = None, name = None, category = Some ''Organic'',
      platform = Some ''Organic'', total_payout = Some 0\<rparr>"

text \<open>Sidebar states: the defaults over the whole date range; the category
  \<^verbatim>\<open>Beauty\<close> alone; a range with only its first date picked.\<close>

definition ui_all :: ui where
  "ui_all = \<lparr>date_range = [0, 5], selected_categories = [''All''],
             selected_platforms = [''All''], report_clicked = True\<rparr>"

definition ui_beauty :: ui where
  "ui_beauty = \<lparr>date_range = [0, 5], selected_categories = [''Beauty''],
                selected_platforms = [''All''], report_clicked = True\<rparr>"

definition ui_one_date :: ui where
  "ui_one_date = \<lparr>date_range = [3], selected_categories = [''All''],
                  selected_platforms = [''All''], report_clicked = False\<rparr>"

text \<open>A tracking row whose influencer is not in the roster but has a payout.\<close>

definition stray_tracking :: tracking where
  "stray_tracking =
     \<lparr>influencer_id = Some 7, date = 3, source = ''influencer'', revenue = Some 10\<rparr>"

definition stray_payouts :: "payout list" where
  "stray_payouts = [\<lparr>pay_influencer_id = 7, pay_total_payout = 40\<rparr>]"

text \<open>Two influencers with different ROI: 3/2 for X, 2 for Y.\<close>

definition two_influencers :: "influencer list" where
  "two_influencers =
     [\<lparr>inf_ID = 1, inf_name = ''X'', inf_category = ''Beauty'', inf_platform = ''Instagram''\<rparr>,
      \<lparr>inf_ID = 2, inf_name = ''Y'', inf_category = ''Fitness'', inf_platform = ''YouTube''\<rparr>]"

definition two_tracking :: "tracking list" where
  "two_tracking =
     [\<lparr>influencer_id = Some 1, date = 1, source = ''influencer'', revenue = Some 100\<rparr>,
      \<lparr>influencer_id = Some 2, date = 2, source = ''influencer'', revenue = Some 90\<rparr>]"

definition two_payouts :: "payout list" where
  "two_payouts =
     [\<lparr>pay_influencer_id = 1, pay_total_payout = 40\<rparr>,
      \<lparr>pay_influencer_id = 2, pay_total_payout = 30\<rparr>]"

definition two_campaign :: "row list" where
  "two_campaign = campaign_data two_tracking two_influencers two_payouts"

definition entry_X :: "nat agg \<times> influencer" where
  "entry_X =
     (\<lparr>agg_key = 1, agg_total_revenue = 100, agg_total_payout = 40, ROI = Fin (3 / 2)\<rparr>,
      \<lparr>inf_ID = 1, inf_name = ''X'', inf_category = ''Beauty'', inf_platform = ''Instagram''\<rparr>)"

definition entry_Y :: "nat agg \<times> influencer" where
  "entry_Y =
     (\<lparr>agg_key = 2, agg_total_revenue = 90, agg_total_payout = 30, ROI = Fin 2\<rparr>,
      \<lparr>inf_ID = 2, inf_name = ''Y'', inf_category = ''Fitness'', inf_platform = ''YouTube''\<rparr>)"



definition ex_files :: files where
  "ex_files =
     \<lparr>influencers_csv = Some ex_influencers, posts_csv = Some [],
      tracking_csv = Some ex_tracking, payouts_csv = Some ex_payouts\<rparr>"

definition files_without_posts :: files where
  "files_without_posts =
     \<lparr>influencers_csv = Some ex_influencers, posts_csv = None,
      tracking_csv = Some ex_tracking, payouts_csv = Some ex_payouts\<rparr>"

section \<open>Join and normalisation\<close>

lemma fillna_row_category: "category (fillna_row r) \<noteq> None"
  by (simp add: fillna_row_def fill_default_def Let_def split: option.split)

lemma fillna_row_platform: "platform (fillna_row r) \<noteq> None"
  by (simp add: fillna_row_def fill_default_def Let_def split: option.split)

lemma fillna_row_total_payout: "total_payout (fillna_row r) \<noteq> None"
  by (simp add: fillna_row_def fill_default_def Let_def split: option.split)

lemma fillna_row_revenue: "revenue (fillna_row r) \<noteq> None"
  by (simp add: fillna_row_def fill_default_def Let_def split: option.split)

lemma merge_influencers_Cons:
  "merge_influencers (t # T) I = merge_influencers [t] I @ merge_influencers T I"
  by (simp add: merge_influencers_def)

lemma merge_payouts_append:
  "merge_payouts (xs @ ys) P = merge_payouts xs P @ merge_payouts ys P"
  by (simp add: merge_payouts_def)

lemma campaign_data_unified:
  "campaign_data T I P = concat (map (\<lambda>t. unified t I P) T)"
proof (induction T)
  case Nil
  show ?case by (simp add: campaign_data_def merge_influencers_def merge_payouts_def)
next
  case (Cons t T)
  have "campaign_data (t # T) I P = unified t I P @ campaign_data T I P"
    unfolding unified_def campaign_data_def
    by (subst merge_influencers_Cons) (simp add: merge_payouts_append)
  with Cons show ?case by simp
qed

lemma campaign_data_filled:
  assumes "r \<in> set (campaign_data T I P)"
  shows "category r \<noteq> None \<and> platform r \<noteq> None \<and> total_payout r \<noteq> None \<and> revenue r \<noteq> None"
proof -
  from assms obtain r0 where "r = fillna_row r0"
    by (auto simp: campaign_data_def)
  then show ?thesis
    by (simp add: fillna_row_category fillna_row_platform fillna_row_total_payout fillna_row_revenue)
qed

lemma unified_unmatched:
  assumes "matching_influencers t I = []"
  shows "unified t I P =
           map fillna_row (case matching_payouts (no_influencer t) P of
                [] \<Rightarrow> [with_payout (no_influencer t) None]
              | ms \<Rightarrow> map (\<lambda>p. with_payout (no_influencer t) (Some (pay_total_payout p))) ms)"
  using assms by (simp add: unified_def campaign_data_def merge_influencers_def merge_payouts_def)

lemma fillna_unmatched:
  "category (fillna_row (with_payout (no_influencer t) p)) = Some ''Organic''"
  "platform (fillna_row (with_payout (no_influencer t) p)) = Some ''Organic''"
  "total_payout (fillna_row (with_payout (no_influencer t) None)) = Some 0"
  by (simp_all add: fillna_row_def with_payout_def no_influencer_def fill_default_def)

lemma no_payout_match:
  "(\<forall>p \<in> set P. influencer_id t \<noteq> Some (pay_influencer_id p)) \<Longrightarrow>
     matching_payouts (no_influencer t) P = []"
  by (auto simp: matching_payouts_def no_influencer_def filter_empty_conv)

text \<open>
  Claim C6, as amended. \<^verbatim>\<open>campaign_data\<close> is the concatenation of the unified records of
  the tracking rows; in every unified record \<^verbatim>\<open>category\<close>, \<^verbatim>\<open>platform\<close>,
  \<^verbatim>\<open>total_payout\<close> and \<^verbatim>\<open>revenue\<close> are non-empty; a tracking row with no matching
  influencer has at least one unified record, each with category and platform
  \<^verbatim>\<open>Organic\<close>, and with \<^verbatim>\<open>total_payout = 0\<close> when no payout row carries its
  \<^verbatim>\<open>influencer_id\<close> either.
\<close>

theorem join_normalize:
  "campaign_data T I P = concat (map (\<lambda>t. unified t I P) T)
   \<and> (\<forall>r \<in> set (campaign_data T I P).
         category r \<noteq> None \<and> platform r \<noteq> None \<and> total_payout r \<noteq> None \<and> revenue r \<noteq> None)
   \<and> (matching_influencers t I = [] \<longrightarrow>
         unified t I P \<noteq> []
         \<and> (\<forall>r \<in> set (unified t I P).
               category r = Some ''Organic'' \<and> platform r = Some ''Organic''
               \<and> ((\<forall>p \<in> set P. influencer_id t \<noteq> Some (pay_influencer_id p))
                    \<longrightarrow> total_payout r = Some 0)))"
proof (intro conjI impI)
  show "campaign_data T I P = concat (map (\<lambda>t. unified t I P) T)"
    by (rule campaign_data_unified)
  show "\<forall>r \<in> set (campaign_data T I P).
         category r \<noteq> None \<and> platform r \<noteq> None \<and> total_payout r \<noteq> None \<and> revenue r \<noteq> None"
    using campaign_data_filled by blast
next
  assume un: "matching_influencers t I = []"
  show "unified t I P \<noteq> []"
    by (simp add: unified_unmatched [OF un] split: list.split)
  show "\<forall>r \<in> set (unified t I P).
               category r = Some ''Organic'' \<and> platform r = Some ''Organic''
               \<and> ((\<forall>p \<in> set P. influencer_id t \<noteq> Some (pay_influencer_id p))
                    \<longrightarrow> total_payout r = Some 0)"
  proof (intro ballI conjI impI)
    fix r assume r: "r \<in> set (unified t I P)"
    then obtain p where rp: "r = fillna_row (with_payout (no_influencer t) p)"
      by (auto simp: unified_unmatched [OF un] split: list.splits)
    show "category r = Some ''Organic''" "platform r = Some ''Organic''"
      by (simp_all add: rp fillna_unmatched)
    assume "\<forall>p \<in> set P. influencer_id t \<noteq> Some (pay_influencer_id p)"
    then have "matching_payouts (no_influencer t) P = []" by (rule no_payout_match)
    with r have "r = fillna_row (with_payout (no_influencer t) None)"
      by (simp add: unified_unmatched [OF un])
    then show "total_payout r = Some 0" by (simp add: fillna_unmatched)
  qed
qed

theorem join_normalize_witness:
  "matching_influencers ex_organic_tracking ex_influencers = []
   \<and> matching_payouts (no_influencer ex_organic_tracking) ex_payouts = []
   \<and> unified ex_organic_tracking ex_influencers ex_payouts = [ex_row_organic]
   \<and> ex_row_organic \<in> set (campaign_data ex_tracking ex_influencers ex_payouts)
   \<and> category ex_row_organic = Some ''Organic'' \<and> platform ex_row_organic = Some ''Organic''
   \<and> total_payout ex_row_organic = Some 0 \<and> revenue ex_row_organic \<noteq> None"
proof -
  note th = join_normalize [of ex_tracking ex_influencers ex_payouts ex_organic_tracking]
  have a: "matching_influencers ex_organic_tracking ex_influencers = []" by code_simp
  have b: "\<forall>p \<in> set ex_payouts. influencer_id ex_organic_tracking \<noteq> Some (pay_influencer_id p)"
    by code_simp
  have c: "unified ex_organic_tracking ex_influencers ex_payouts = [ex_row_organic]" by code_simp
  have d: "ex_row_organic \<in> set (campaign_data ex_tracking ex_influencers ex_payouts)"
    by code_simp
  from th a have "\<forall>r \<in> set (unified ex_organic_tracking ex_influencers ex_payouts).
      category r = Some ''Organic'' \<and> platform r = Some ''Organic''
      \<and> ((\<forall>p \<in> set ex_payouts. influencer_id ex_organic_tracking \<noteq> Some (pay_influencer_id p))
           \<longrightarrow> total_payout r = Some 0)"
    by blast
  with b c have e: "category ex_row_organic = Some ''Organic'' \<and> platform ex_row_organic = Some ''Organic''
      \<and> total_payout ex_row_organic = Some 0"
    by simp
  from th d have f: "revenue ex_row_organic \<noteq> None" by blast
  have g: "matching_payouts (no_influencer ex_organic_tracking) ex_payouts = []" by code_simp
  from a g c d e f show ?thesis by blast
qed

text \<open>
  The payout join is keyed on the tracking row's \<^verbatim>\<open>influencer_id\<close> alone: a row whose
  influencer is not in the roster still receives the payout recorded under its id, so
  its \<^verbatim>\<open>total_payout\<close> is not 0.
\<close>

theorem organic_default_counterexample:
  "matching_influencers stray_tracking ex_influencers = []
   \<and> map category (unified stray_tracking ex_influencers stray_payouts) = [Some ''Organic'']
   \<and> map total_payout (unified stray_tracking ex_influencers stray_payouts) = [Some 40]"
  by code_simp

section \<open>Filters\<close>

lemma filter_categories_pred:
  "filter_categories sel df = filter (\<lambda>r. ''All'' \<in> set sel \<or> isin (category r) sel) df"
  by (simp add: filter_categories_def)

lemma filter_platforms_pred:
  "filter_platforms sel df = filter (\<lambda>r. ''All'' \<in> set sel \<or> isin (platform r) sel) df"
  by (simp add: filter_platforms_def)

lemma filter_dates_shape:
  "(length dr \<noteq> 0 \<and> length dr \<noteq> 2 \<and> (\<forall>df. filter_dates dr df = Inl ValueError))
   \<or> (\<exists>P. \<forall>df. filter_dates dr df = Inr (filter P df))"
proof (cases dr)
  case Nil
  then have "\<forall>df. filter_dates dr df = Inr (filter (\<lambda>_. True) df)" by simp
  then show ?thesis by blast
next
  case (Cons a as)
  show ?thesis
  proof (cases as)
    case Nil
    with Cons show ?thesis by simp
  next
    case (Cons b bs)
    note c2 = this
    show ?thesis
    proof (cases bs)
      case Nil
      with \<open>dr = a # as\<close> c2
      have "\<forall>df. filter_dates dr df = Inr (filter (\<lambda>r. a \<le> date r \<and> date r \<le> b) df)" by simp
      then show ?thesis by blast
    next
      case (Cons c cs)
      with \<open>dr = a # as\<close> c2 show ?thesis by simp
    qed
  qed
qed

lemma filter_rows_shape:
  "filter_rows f = (\<lambda>df. Inl ValueError) \<or> (\<exists>P. filter_rows f = (\<lambda>df. Inr (filter P df)))"
proof -
  from filter_dates_shape [of "date_range f"]
  consider "\<forall>df. filter_dates (date_range f) df = Inl ValueError"
    | P where "\<forall>df. filter_dates (date_range f) df = Inr (filter P df)"
    by blast
  then show ?thesis
  proof cases
    case 1
    then have "filter_rows f = (\<lambda>df. Inl ValueError)"
      by (simp add: filter_rows_def fun_eq_iff)
    then show ?thesis ..
  next
    case 2
    then have "filter_rows f = (\<lambda>df. Inr (filter
        (\<lambda>r. (''All'' \<in> set (selected_categories f) \<or> isin (category r) (selected_categories f))
           \<and> (''All'' \<in> set (selected_platforms f) \<or> isin (platform r) (selected_platforms f))
           \<and> P r) df))"
      by (simp add: filter_rows_def fun_eq_iff filter_categories_pred filter_platforms_pred)
    then show ?thesis by blast
  qed
qed

lemma filter_twice_eq: "filter_twice f R = filter_rows f R"
  using filter_rows_shape [of f] by (auto simp: filter_twice_def)

lemma apply_filters_result:
  "apply_filters f s =
     (case filter_rows f (v_campaign_data s) of
        Inl e \<Rightarrow> Inl e
      | Inr df \<Rightarrow> Inr (s\<lparr>v_filtered_df := df\<rparr>))"
  by (simp add: apply_filters_def filter_rows_def Let_def split: sum.split)

text \<open>
  Claim C7. Filtering is idempotent: applying the filter \<open>f\<close> (date range, categories,
  platforms) to its own result gives that result again, for every frame \<open>R\<close>; with a
  date range that cannot be unpacked both sides are the same error. Filtering leaves
  its input alone: after lines 64--71 \<^verbatim>\<open>campaign_data\<close> is what it was, and
  \<^verbatim>\<open>filtered_df\<close> is the filtered frame, a fixed point of the filter.
\<close>

theorem filter_idempotent:
  "filter_twice f R = filter_rows f R
   \<and> (apply_filters f s = Inr s' \<longrightarrow>
        v_campaign_data s' = v_campaign_data s
        \<and> filter_rows f (v_campaign_data s) = Inr (v_filtered_df s')
        \<and> filter_rows f (v_filtered_df s') = Inr (v_filtered_df s'))"
proof (intro conjI impI)
  show tw: "filter_twice f R = filter_rows f R" by (rule filter_twice_eq)
  assume a: "apply_filters f s = Inr s'"
  then obtain df where df: "filter_rows f (v_campaign_data s) = Inr df"
    and s': "s' = s\<lparr>v_filtered_df := df\<rparr>"
    by (auto simp: apply_filters_result split: sum.splits)
  show "v_campaign_data s' = v_campaign_data s" by (simp add: s')
  show "filter_rows f (v_campaign_data s) = Inr (v_filtered_df s')" by (simp add: s' df)
  from filter_twice_eq [of f "v_campaign_data s"] df
  show "filter_rows f (v_filtered_df s') = Inr (v_filtered_df s')"
    by (simp add: filter_twice_def s')
qed

theorem filter_idempotent_witness:
  "apply_filters ui_beauty \<lparr>v_campaign_data = ex_campaign, v_filtered_df = []\<rparr>
     = Inr \<lparr>v_campaign_data = ex_campaign, v_filtered_df = [ex_row_influencer]\<rparr>
   \<and> filter_rows ui_beauty ex_campaign = Inr [ex_row_influencer]
   \<and> filter_rows ui_beauty [ex_row_influencer] = Inr [ex_row_influencer]
   \<and> filter_twice ui_beauty ex_campaign = Inr [ex_row_influencer]"
proof -
  have a: "apply_filters ui_beauty \<lparr>v_campaign_data = ex_campaign, v_filtered_df = []\<rparr>
     = Inr \<lparr>v_campaign_data = ex_campaign, v_filtered_df = [ex_row_influencer]\<rparr>"
    by code_simp
  from filter_idempotent [of ui_beauty ex_campaign
      "\<lparr>v_campaign_data = ex_campaign, v_filtered_df = []\<rparr>"
      "\<lparr>v_campaign_data = ex_campaign, v_filtered_df = [ex_row_influencer]\<rparr>"] a
  show ?thesis by simp
qed

text \<open>
  Claim C10. The date predicate is applied only when \<^verbatim>\<open>date_range\<close> is non-empty: an
  empty range leaves the category- and platform-filtered frame as it is, a pair
  \<open>(a, b)\<close> keeps the rows dated within \<open>[a, b]\<close>. Every other non-empty range (a single
  date, three dates) makes the filter step fail with the unpacking error: no filtered
  frame results, and the page ends after the sidebar with that error.
\<close>

theorem date_range_unpacking:
  "(date_range f = [] \<longrightarrow>
      filter_rows f R = Inr (filter_platforms (selected_platforms f)
                              (filter_categories (selected_categories f) R)))
   \<and> (date_range f = [a, b] \<longrightarrow>
      filter_rows f R = Inr (filter (\<lambda>r. a \<le> date r \<and> date r \<le> b)
                              (filter_platforms (selected_platforms f)
                                (filter_categories (selected_categories f) R))))
   \<and> (date_range f \<noteq> [] \<and> length (date_range f) \<noteq> 2 \<longrightarrow>
      filter_rows f R = Inl ValueError
      \<and> apply_filters f s = Inl ValueError
      \<and> render t f = sidebar t @ [Uncaught ValueError])"
proof (intro conjI impI)
  assume "date_range f = []"
  then show "filter_rows f R = Inr (filter_platforms (selected_platforms f)
                              (filter_categories (selected_categories f) R))"
    by (simp add: filter_rows_def)
next
  assume "date_range f = [a, b]"
  then show "filter_rows f R = Inr (filter (\<lambda>r. a \<le> date r \<and> date r \<le> b)
                              (filter_platforms (selected_platforms f)
                                (filter_categories (selected_categories f) R)))"
    by (simp add: filter_rows_def)
next
  assume "date_range f \<noteq> [] \<and> length (date_range f) \<noteq> 2"
  with filter_dates_shape [of "date_range f"]
  have e: "\<And>df. filter_dates (date_range f) df = Inl ValueError"
  proof -
    fix df
    obtain x xs where c: "date_range f = x # xs"
      using \<open>date_range f \<noteq> [] \<and> length (date_range f) \<noteq> 2\<close> by (cases "date_range f") auto
    show "filter_dates (date_range f) df = Inl ValueError"
    proof (cases xs)
      case Nil with c show ?thesis by simp
    next
      case (Cons y ys)
      with c \<open>date_range f \<noteq> [] \<and> length (date_range f) \<noteq> 2\<close> obtain z zs where "ys = z # zs"
        by (cases ys) auto
      with c Cons show ?thesis by simp
    qed
  qed
  then show "filter_rows f R = Inl ValueError" by (simp add: filter_rows_def)
  from e have "\<And>df. filter_rows f df = Inl ValueError" by (simp add: filter_rows_def)
  then show "apply_filters f s = Inl ValueError" "render t f = sidebar t @ [Uncaught ValueError]"
    by (simp_all add: apply_filters_result render_def)
qed

theorem date_range_unpacking_witness:
  "date_range ui_one_date \<noteq> [] \<and> length (date_range ui_one_date) \<noteq> 2
   \<and> filter_rows ui_one_date ex_campaign = Inl ValueError
   \<and> apply_filters ui_one_date \<lparr>v_campaign_data = ex_campaign, v_filtered_df = []\<rparr> = Inl ValueError
   \<and> date_range ui_all = [0, 5]
   \<and> filter_rows ui_all ex_campaign = Inr ex_campaign
   \<and> date_range (ui_all\<lparr>date_range := []\<rparr>) = []
   \<and> filter_rows (ui_all\<lparr>date_range := []\<rparr>) ex_campaign = Inr ex_campaign"
proof -
  have a: "date_range ui_one_date \<noteq> [] \<and> length (date_range ui_one_date) \<noteq> 2"
    by (simp add: ui_one_date_def)
  have b: "date_range ui_all = [0, 5]" by (simp add: ui_all_def)
  have c: "date_range (ui_all\<lparr>date_range := []\<rparr>) = []" by simp
  have d: "filter_rows ui_all ex_campaign = Inr ex_campaign" by code_simp
  have e: "filter_rows (ui_all\<lparr>date_range := []\<rparr>) ex_campaign = Inr ex_campaign" by code_simp
  from date_range_unpacking [where f = ui_one_date and R = ex_campaign
      and s = "\<lparr>v_campaign_data = ex_campaign, v_filtered_df = []\<rparr>"] a
  have "filter_rows ui_one_date ex_campaign = Inl ValueError
      \<and> apply_filters ui_one_date \<lparr>v_campaign_data = ex_campaign, v_filtered_df = []\<rparr> = Inl ValueError"
    by blast
  with a b c d e show ?thesis by blast
qed

section \<open>Missing input files\<close>

lemma load_missing:
  assumes "influencers_csv fs = None \<or> posts_csv fs = None \<or> tracking_csv fs = None
           \<or> payouts_csv fs = None"
  shows "load fs = Inl not_found"
  using assms by (auto simp: load_def split: option.splits)

lemma load_present:
  assumes "influencers_csv fs = Some i" "posts_csv fs = Some p" "tracking_csv fs = Some t"
    "payouts_csv fs = Some y"
  shows "load fs = Inr \<lparr>influencers_df = i, posts_df = p, tracking_df = t, payouts_df = y\<rparr>"
  using assms by (simp add: load_def)

text \<open>
  Claim C8. If any of the four input files is missing, the run shows the static page
  header followed by the error message and stops: the page is the same whatever the
  sidebar state and whatever the files that do exist contain, and it holds no filter
  control, KPI card, chart, table, button or report.
\<close>

theorem missing_source_fails_fast:
  assumes "influencers_csv fs = None \<or> posts_csv fs = None \<or> tracking_csv fs = None
           \<or> payouts_csv fs = None"
  shows "dashboard fs u = page_header @ [Error_box not_found]
         \<and> filter dashboard_element (dashboard fs u) = []"
proof -
  have "dashboard fs u = page_header @ [Error_box not_found]"
    by (simp add: dashboard_def load_missing [OF assms])
  then show ?thesis by (simp add: page_header_def)
qed

theorem missing_source_fails_fast_witness:
  "posts_csv files_without_posts = None
   \<and> dashboard files_without_posts ui_all = page_header @ [Error_box not_found]
   \<and> filter dashboard_element (dashboard files_without_posts ui_all) = []"
proof -
  have a: "posts_csv files_without_posts = None" by (simp add: files_without_posts_def)
  then have "influencers_csv files_without_posts = None \<or> posts_csv files_without_posts = None
     \<or> tracking_csv files_without_posts = None \<or> payouts_csv files_without_posts = None"
    by simp
  from missing_source_fails_fast [OF this, of ui_all] a show ?thesis by blast
qed

section \<open>Group-by aggregation and unmatched rows\<close>
























lemma mset_sort_values: "mset (sort_values col ascending df) = mset df"
proof -
  have "mset (filter (\<lambda>r. col r \<noteq> NaN) df) + mset (filter (\<lambda>r. col r = NaN) df) = mset df"
    by (induction df) simp_all
  then show ?thesis by (simp add: sort_values_def Let_def)
qed

lemma length_sort_values: "length (sort_values col ascending df) = length df"
  using mset_sort_values [of col ascending df] by (metis size_mset)









section \<open>Ranking, top and bottom\<close>

lemma clean_finite: "is_finite (ROI (clean p))"
  by (cases "ROI p") (simp_all add: clean_def)

lemma influencer_groups_finite:
  "g \<in> set (influencer_groups df) \<Longrightarrow> is_finite (ROI g)"
  by (auto simp: influencer_groups_def clean_finite)

lemma influencer_merged_finite:
  assumes "r \<in> set (influencer_merged df I)"
  shows "is_finite (ROI (fst r))"
  using assms by (auto simp: influencer_merged_def merge_details_def influencer_groups_finite)

lemma finite_not_nan: "is_finite x \<Longrightarrow> x \<noteq> NaN"
  by auto

lemma sort_values_no_nan:
  assumes "\<forall>r \<in> set df. col r \<noteq> NaN"
  shows "sort_values col ascending df =
           (if ascending then sort_key (\<lambda>r. roi_key (col r)) df
            else rev (sort_key (\<lambda>r. roi_key (col r)) (rev df)))"
proof -
  from assms have "filter (\<lambda>r. col r \<noteq> NaN) df = df" "filter (\<lambda>r. col r = NaN) df = []"
    by (simp_all add: filter_empty_conv)
  then show ?thesis by (simp add: sort_values_def)
qed

lemma sort_values_ascending:
  assumes "\<forall>r \<in> set df. col r \<noteq> NaN"
  shows "ascending_by col (sort_values col True df)"
  by (simp add: sort_values_no_nan [OF assms] ascending_by_def)

lemma sort_values_descending:
  assumes "\<forall>r \<in> set df. col r \<noteq> NaN"
  shows "descending_by col (sort_values col False df)"
  by (simp add: sort_values_no_nan [OF assms] descending_by_def rev_map [symmetric])

lemma ascending_by_take: "ascending_by col df \<Longrightarrow> ascending_by col (take n df)"
  by (simp add: ascending_by_def take_map [symmetric])

lemma descending_by_take: "descending_by col df \<Longrightarrow> descending_by col (take n df)"
  by (simp add: descending_by_def take_map [symmetric] rev_take)

lemma descending_by_drop: "descending_by col df \<Longrightarrow> descending_by col (drop n df)"
  by (simp add: descending_by_def drop_map [symmetric] rev_drop)

lemma rev_tail: "rev (tail n df) = take n (rev df)"
proof (cases "n \<le> length df")
  case True
  then show ?thesis by (simp add: tail_def rev_drop)
next
  case False
  then show ?thesis by (simp add: tail_def)
qed

lemma keys_sort_key: "map k (sort_key k xs) = sort (map k xs)"
  by (rule properties_for_sort [symmetric]) simp_all

lemma sort_rev: "sort (rev xs) = sort xs"
  by (rule properties_for_sort) simp_all

lemma tail_descending_keys:
  assumes "\<forall>r \<in> set df. col r \<noteq> NaN"
  shows "map (\<lambda>r. roi_key (col r)) (rev (tail n (sort_values col False df)))
         = map (\<lambda>r. roi_key (col r)) (head n (sort_values col True df))"
proof -
  let ?k = "\<lambda>r. roi_key (col r)"
  have "map ?k (rev (tail n (sort_values col False df))) = take n (map ?k (sort_key ?k (rev df)))"
    by (simp add: sort_values_no_nan [OF assms] rev_tail take_map)
  also have "map ?k (sort_key ?k (rev df)) = map ?k (sort_key ?k df)"
    by (simp add: keys_sort_key rev_map [symmetric] sort_rev)
  finally show ?thesis
    by (simp add: sort_values_no_nan [OF assms] head_def take_map)
qed


lemma merged_no_nan: "\<forall>r \<in> set (influencer_merged df I). ROI (fst r) \<noteq> NaN"
  using influencer_merged_finite finite_not_nan by blast

lemma head_all: "length df \<le> n \<Longrightarrow> head n df = df"
  by (simp add: head_def)

lemma tail_all: "length df \<le> n \<Longrightarrow> tail n df = df"
  by (simp add: tail_def)

text \<open>
  Claim C5, as amended. The report's bottom three are the first three of the
  ascending-by-ROI sort, in ascending order, and its top three are in descending
  order. The page's poor-performers table is the last ten rows of the descending
  ranking, shown in descending order: read from the bottom up it carries the same ROI
  values as the first ten of the ascending sort. Asking for more rows than there are
  is no error: with at most ten influencers (so with exactly two) the top-ten and the
  poor-performers table are both the whole descending ranking, a permutation of the
  influencers; with at most three the report's top and bottom lists each hold all of
  them.
\<close>

theorem bottom_n:
  "poor_influencers df I
     = head 3 (sort_values (\<lambda>r. ROI (fst r)) True (influencer_merged df I))
   \<and> poor_table df I
     = tail 10 (sort_values (\<lambda>r. ROI (fst r)) False (influencer_merged df I))
   \<and> ascending_by (\<lambda>r. ROI (fst r)) (poor_influencers df I)
   \<and> descending_by (\<lambda>r. ROI (fst r)) (top_influencers df I)
   \<and> descending_by (\<lambda>r. ROI (fst r)) (top_table df I)
   \<and> descending_by (\<lambda>r. ROI (fst r)) (poor_table df I)
   \<and> map (\<lambda>r. roi_key (ROI (fst r))) (rev (poor_table df I))
       = map (\<lambda>r. roi_key (ROI (fst r)))
           (head 10 (sort_values (\<lambda>r. ROI (fst r)) True (influencer_merged df I)))
   \<and> (length (influencer_merged df I) \<le> 10 \<longrightarrow>
         top_table df I = influencer_performance df I
         \<and> poor_table df I = influencer_performance df I
         \<and> mset (influencer_performance df I) = mset (influencer_merged df I))
   \<and> (length (influencer_merged df I) \<le> 3 \<longrightarrow>
         mset (top_influencers df I) = mset (influencer_merged df I)
         \<and> mset (poor_influencers df I) = mset (influencer_merged df I))"
proof -
  let ?c = "\<lambda>r :: nat agg \<times> influencer. ROI (fst r)"
  let ?m = "influencer_merged df I"
  note nn = merged_no_nan [of df I]
  have asc: "ascending_by ?c (sort_values ?c True ?m)" by (rule sort_values_ascending [OF nn])
  have desc: "descending_by ?c (sort_values ?c False ?m)" by (rule sort_values_descending [OF nn])
  have 1: "ascending_by ?c (poor_influencers df I)"
    unfolding poor_influencers_def head_def by (rule ascending_by_take [OF asc])
  have 2: "descending_by ?c (top_influencers df I)"
    unfolding top_influencers_def head_def by (rule descending_by_take [OF desc])
  have 3: "descending_by ?c (top_table df I)"
    unfolding top_table_def influencer_performance_def head_def
    by (rule descending_by_take [OF desc])
  have 4: "descending_by ?c (poor_table df I)"
    unfolding poor_table_def influencer_performance_def tail_def
    by (rule descending_by_drop [OF desc])
  have 5: "map (\<lambda>r. roi_key (?c r)) (rev (poor_table df I))
       = map (\<lambda>r. roi_key (?c r)) (head 10 (sort_values ?c True ?m))"
    unfolding poor_table_def influencer_performance_def
    by (rule tail_descending_keys [OF nn])
  have 6: "length ?m \<le> 10 \<longrightarrow>
         top_table df I = influencer_performance df I
         \<and> poor_table df I = influencer_performance df I
         \<and> mset (influencer_performance df I) = mset ?m"
    by (simp add: top_table_def poor_table_def influencer_performance_def head_all tail_all
        length_sort_values mset_sort_values)
  have 7: "length ?m \<le> 3 \<longrightarrow>
         mset (top_influencers df I) = mset ?m \<and> mset (poor_influencers df I) = mset ?m"
    by (simp add: top_influencers_def poor_influencers_def head_all
        length_sort_values mset_sort_values)
  have 0: "poor_influencers df I = head 3 (sort_values ?c True ?m)"
    "poor_table df I = tail 10 (sort_values ?c False ?m)"
    by (simp_all only: poor_influencers_def poor_table_def influencer_performance_def)
  from 0 1 2 3 4 5 6 7 show ?thesis by (intro conjI)
qed

theorem bottom_n_witness:
  "influencer_merged two_campaign two_influencers = [entry_X, entry_Y]
   \<and> length (influencer_merged two_campaign two_influencers) \<le> 3
   \<and> top_table two_campaign two_influencers = [entry_Y, entry_X]
   \<and> poor_table two_campaign two_influencers = [entry_Y, entry_X]
   \<and> top_influencers two_campaign two_influencers = [entry_Y, entry_X]
   \<and> poor_influencers two_campaign two_influencers = [entry_X, entry_Y]
   \<and> mset (poor_influencers two_campaign two_influencers) = mset [entry_X, entry_Y]
   \<and> mset (top_influencers two_campaign two_influencers) = mset [entry_X, entry_Y]
   \<and> ascending_by (\<lambda>r. ROI (fst r)) [entry_X, entry_Y]
   \<and> descending_by (\<lambda>r. ROI (fst r)) [entry_Y, entry_X]"
proof -
  note th = bottom_n [of two_campaign two_influencers, THEN conjunct2, THEN conjunct2]
  have a: "influencer_merged two_campaign two_influencers = [entry_X, entry_Y]" by code_simp
  have b: "top_table two_campaign two_influencers = [entry_Y, entry_X]" by code_simp
  have c: "poor_table two_campaign two_influencers = [entry_Y, entry_X]" by code_simp
  have d: "top_influencers two_campaign two_influencers = [entry_Y, entry_X]" by code_simp
  have e: "poor_influencers two_campaign two_influencers = [entry_X, entry_Y]" by code_simp
  from a have l: "length (influencer_merged two_campaign two_influencers) \<le> 3" by simp
  from th l a have f: "mset (poor_influencers two_campaign two_influencers) = mset [entry_X, entry_Y]"
    "mset (top_influencers two_campaign two_influencers) = mset [entry_X, entry_Y]"
    by simp_all
  from th e have g: "ascending_by (\<lambda>r. ROI (fst r)) [entry_X, entry_Y]" by simp
  from th b have h: "descending_by (\<lambda>r. ROI (fst r)) [entry_Y, entry_X]" by simp
  from a l b c d e f g h show ?thesis by (intro conjI)
qed

text \<open>
  Two influencers, X with ROI 3/2 and Y with ROI 2: the page's poor-performers table
  is Y, X (descending), not the head of the ascending sort X, Y.
\<close>

theorem bottom_n_counterexample:
  "influencer_merged two_campaign two_influencers = [entry_X, entry_Y]
   \<and> poor_table two_campaign two_influencers = [entry_Y, entry_X]
   \<and> head 10 (sort_values (\<lambda>r. ROI (fst r)) True (influencer_merged two_campaign two_influencers))
       = [entry_X, entry_Y]
   \<and> ROI (fst entry_X) = Fin (3 / 2) \<and> ROI (fst entry_Y) = Fin 2"
  by code_simp

section \<open>The zero guard of ROI\<close>

lemma fdiv_finite: "b \<noteq> 0 \<Longrightarrow> is_finite (fdiv a b)"
  by (simp add: fdiv_def)

lemma roi_guarded: "is_finite (roi df) \<and> (kpi_total_payout df = 0 \<longrightarrow> roi df = Fin 0)"
  by (simp add: roi_def fdiv_def)

lemma incremental_roas_guarded:
  "is_finite (incremental_roas T df) \<and> (kpi_total_payout df = 0 \<longrightarrow> incremental_roas T df = Fin 0)"
  by (simp add: incremental_roas_def fdiv_def)

lemma roi_val_guarded: "is_finite (roi_val df) \<and> (total_payout_val df = 0 \<longrightarrow> roi_val df = Fin 0)"
  by (simp add: roi_val_def fdiv_def)

lemma clean_with_ROI_guarded:
  "is_finite (ROI (clean (with_ROI (k, tr, tp))))
   \<and> (tp = 0 \<longrightarrow> ROI (clean (with_ROI (k, tr, tp))) = Fin 0)"
  by (simp add: clean_def fdiv_def)

lemma cleaned_groups_guarded:
  assumes "g \<in> set (map clean (map with_ROI (groupby_agg key df)))"
  shows "is_finite (ROI g) \<and> (agg_total_payout g = 0 \<longrightarrow> ROI g = Fin 0)"
proof -
  from assms obtain k tr tp where g: "g = clean (with_ROI (k, tr, tp))" by auto
  have "agg_total_payout g = tp" by (simp add: g clean_def)
  with clean_with_ROI_guarded [of k tr tp] show ?thesis by (simp add: g)
qed

lemma report_groups_guarded:
  "\<forall>g \<in> set (category_performance df). is_finite (ROI g) \<and> (agg_total_payout g = 0 \<longrightarrow> ROI g = Fin 0)"
  "\<forall>g \<in> set (platform_performance df). is_finite (ROI g) \<and> (agg_total_payout g = 0 \<longrightarrow> ROI g = Fin 0)"
  "\<forall>g \<in> set (influencer_groups df). is_finite (ROI g) \<and> (agg_total_payout g = 0 \<longrightarrow> ROI g = Fin 0)"
  unfolding category_performance_def platform_performance_def influencer_groups_def
  using cleaned_groups_guarded by blast+

text \<open>
  Claim C3. The ROI of an aggregation is never \<^verbatim>\<open>nan\<close> or infinite and is 0 for a group
  whose total payout is 0. The overall KPI, the report's category, platform and
  influencer aggregations and the leaderboard guard the division (the lemmas above).
  The frame behind the page's category chart (lines 131--135) does not: in the
  specification's scenario under the default filters its \<^verbatim>\<open>Organic\<close> group has total
  payout 0 and ROI \<^verbatim>\<open>inf\<close>, where the report's aggregation of the same frame has 0.
\<close>

theorem category_chart_infinite_ROI:
  "ex_campaign = campaign_data ex_tracking ex_influencers ex_payouts
   \<and> filter_rows ui_all ex_campaign = Inr ex_campaign
   \<and> category_revenue ex_campaign =
       [\<lparr>agg_key = ''Beauty'', agg_total_revenue = 100, agg_total_payout = 40, ROI = Fin (3 / 2)\<rparr>,
        \<lparr>agg_key = ''Organic'', agg_total_revenue = 50, agg_total_payout = 0, ROI = PInf\<rparr>]
   \<and> category_performance ex_campaign =
       [\<lparr>agg_key = ''Beauty'', agg_total_revenue = 100, agg_total_payout = 40, ROI = Fin (3 / 2)\<rparr>,
        \<lparr>agg_key = ''Organic'', agg_total_revenue = 50, agg_total_payout = 0, ROI = Fin 0\<rparr>]"
  by code_simp

lemma category_chart_on_page:
  "Bar_chart_ROI (category_revenue ex_campaign) \<in> set (dashboard ex_files ui_all)"
  by code_simp

section \<open>The report and the KPI cards\<close>

lemma distinct_filter_key:
  assumes "distinct (map f xs)"
  shows "filter (\<lambda>x. k = Some (f x)) xs = [] \<or> (\<exists>x. filter (\<lambda>x. k = Some (f x)) xs = [x])"
  using assms
proof (induction xs)
  case Nil
  then show ?case by simp
next
  case (Cons a xs)
  show ?case
  proof (cases "k = Some (f a)")
    case True
    with Cons.prems have "filter (\<lambda>x. k = Some (f x)) xs = []"
      by (auto simp: filter_empty_conv)
    with True show ?thesis by simp
  next
    case False
    with Cons show ?thesis by simp
  qed
qed

lemma unified_single:
  assumes "distinct (map inf_ID I)" "distinct (map pay_influencer_id P)"
  shows "\<exists>r. unified t I P = [r] \<and> source r = source t
             \<and> revenue r = fill_default 0 (revenue t)"
proof -
  from distinct_filter_key [OF assms(1), of "influencer_id t"]
  obtain j where j: "merge_influencers [t] I = [j]" "source j = source t" "revenue j = revenue t"
      "influencer_id j = influencer_id t"
    by (auto simp: merge_influencers_def matching_influencers_def no_influencer_def
        join_influencer_def)
  from distinct_filter_key [OF assms(2), of "influencer_id j"]
  obtain p where "merge_payouts [j] P = [with_payout j p]"
    by (auto simp: merge_payouts_def matching_payouts_def)
  with j show ?thesis
    by (simp add: unified_def campaign_data_def fillna_row_def with_payout_def Let_def)
qed

lemma campaign_data_Cons:
  "campaign_data (t # T) I P = unified t I P @ campaign_data T I P"
  by (simp add: campaign_data_unified)

text \<open>With one roster row per influencer and one payout row per influencer, the join
  keeps one row per tracking row, and the organic revenue of the unfiltered
  \<^verbatim>\<open>campaign_data\<close> is that of the tracking table.\<close>

lemma report_baseline_unfiltered:
  assumes "distinct (map inf_ID I)" "distinct (map pay_influencer_id P)"
  shows "report_organic_revenue (campaign_data T I P) = organic_revenue_baseline T"
proof (induction T)
  case Nil
  show ?case
    by (simp add: campaign_data_unified report_organic_revenue_def organic_revenue_baseline_def
        col_sum_def)
next
  case (Cons t T)
  from unified_single [OF assms, of t]
  obtain r where r: "unified t I P = [r]" "source r = source t"
    "revenue r = fill_default 0 (revenue t)" by blast
  have "report_organic_revenue (campaign_data (t # T) I P)
        = col_sum revenue (filter (\<lambda>r. source r = ''organic'') [r])
          + report_organic_revenue (campaign_data T I P)"
    by (simp add: campaign_data_Cons r report_organic_revenue_def col_sum_def)
  also have "col_sum revenue (filter (\<lambda>r. source r = ''organic'') [r])
        = col_sum revenue (filter (\<lambda>t. source t = ''organic'') [t])"
    using r by (simp add: col_sum_def fill_default_def split: option.split)
  finally show ?case
    using Cons by (simp add: organic_revenue_baseline_def col_sum_def)
qed

lemma report_matches_kpis_but_roas:
  "take 3 (summary (generate_detailed_report df I)) = take 3 (kpi_cards T df)"
  by (simp add: generate_detailed_report_def kpi_cards_def total_revenue_val_def
      total_payout_val_def roi_val_def kpi_total_revenue_def kpi_total_payout_def roi_def)

lemma report_matches_kpis_if_baseline:
  assumes "report_organic_revenue df = organic_revenue_baseline T"
  shows "summary (generate_detailed_report df I) = kpi_cards T df"
  using assms
  by (simp add: generate_detailed_report_def kpi_cards_def total_revenue_val_def
      total_payout_val_def roi_val_def kpi_total_revenue_def kpi_total_payout_def roi_def
      incremental_roas_val_def incremental_roas_def influencer_revenue_def)

text \<open>
  Claim C1. The organic baseline of the incremental ROAS is the organic revenue of the
  whole tracking table whatever the filter. The KPI card computes it so
  (\<open>organic_revenue_baseline\<close> reads \<^verbatim>\<open>tracking_df\<close> only). The report subtracts the
  organic revenue of the filtered frame instead: in the specification's scenario the
  baseline is 50; with the category filter set to \<^verbatim>\<open>Beauty\<close> the report's term is 0
  and its incremental ROAS is 5/2, where the KPI card shows 5/4.
\<close>

theorem report_baseline_filtered:
  "filter_rows ui_all ex_campaign = Inr ex_campaign
   \<and> filter_rows ui_beauty ex_campaign = Inr [ex_row_influencer]
   \<and> organic_revenue_baseline ex_tracking = 50
   \<and> report_organic_revenue ex_campaign = 50
   \<and> report_organic_revenue [ex_row_influencer] = 0
   \<and> incremental_roas ex_tracking [ex_row_influencer] = Fin (5 / 4)
   \<and> incremental_roas_val [ex_row_influencer] = Fin (5 / 2)"
  by code_simp

text \<open>
  Claim C2. The report prints total revenue, total payout, ROI and incremental ROAS
  with the format specifications of the KPI cards. The first three are the cards'
  values for every filtered frame, and the fourth is too when the frame's organic
  revenue is that of the whole tracking table (the lemmas above). With the category
  filter set to \<^verbatim>\<open>Beauty\<close> in the specification's scenario the card shows an
  incremental ROAS of 5/4 and the report one of 5/2.
\<close>

theorem report_disagrees_with_kpi:
  "filter_rows ui_beauty ex_campaign = Inr [ex_row_influencer]
   \<and> kpi_cards ex_tracking [ex_row_influencer] =
       [(''Total Revenue'', Currency 100), (''Total Payouts'', Currency 40),
        (''ROI'', Percent (Fin (3 / 2))), (''Incremental ROAS'', Fixed2 (Fin (5 / 4)))]
   \<and> summary (generate_detailed_report [ex_row_influencer] ex_influencers) =
       [(''Total Revenue'', Currency 100), (''Total Payouts'', Currency 40),
        (''ROI'', Percent (Fin (3 / 2))), (''Incremental ROAS'', Fixed2 (Fin (5 / 2)))]"
  by code_simp

end
